theory Spec2Isabelle
  imports Main "HOL-Library.Word"
begin

section \<open>The claim data model of \<^verbatim>\<open>types.go\<close>\<close>

text \<open>
  Every Go struct of \<^verbatim>\<open>types.go\<close> is a record whose fields carry the struct's name as a
  prefix (\<^verbatim>\<open>Import.Type\<close> is \<open>Import_Type\<close>), because Go lets \<^verbatim>\<open>Import\<close> and
  \<^verbatim>\<open>Export\<close> share field names and HOL does not. Go strings are \<open>string\<close>, \<^verbatim>\<open>int64\<close> is
  \<open>64 word\<close>, a slice is read as the list of its elements, and an embedded struct is a
  field named after its type.
\<close>

type_synonym ImportExportType = string

definition ImportExportTypeStream :: ImportExportType where
  "ImportExportTypeStream = ''stream''"

definition ImportExportTypeService :: ImportExportType where
  "ImportExportTypeService = ''service''"

record Import =
  Import_Type :: ImportExportType
  Import_Account :: string
  Import_Subject :: string
  Import_To :: string
  Import_Prefix :: string

record Account =
  Account_Imports :: "Import list"
  Account_Act :: "string list"

record Limits =
  Limits_Max :: "64 word"
  Limits_Payload :: "64 word"
  Limits_Src :: string
  Limits_Times :: "64 word list"

record OperatorLimits =
  OperatorLimits_Subs :: "64 word"
  OperatorLimits_Conn :: "64 word"
  OperatorLimits_Maps :: "64 word"

type_synonym StringList = "string list"

record Permission =
  Permission_Allow :: StringList
  Permission_Deny :: StringList

record Permissions =
  Permissions_Pub :: Permission
  Permissions_Sub :: Permission

record Export =
  Export_Type :: ImportExportType
  Export_Subject :: string

record Activation =
  Activation_Exports :: "Export list"
  Activation_Limits :: Limits
  Activation_OperatorLimits :: OperatorLimits

record Identity =
  Identity_ID :: string
  Identity_Proof :: string

record Operator =
  Operator_Identities :: "Identity list"

record Server =
  Server_Permissions :: Permissions
  Server_Cluster :: string

record User =
  User_Permissions :: Permissions
  User_Limits :: Limits

record Revocation =
  Revocation_Revoked :: string
  Revocation_JWT :: string
  Revocation_Reason :: string

text \<open>
  Modelled from the spec: the types \<^verbatim>\<open>ActivationClaims\<close> and \<^verbatim>\<open>GenericClaims\<close> are
  declared outside \<^verbatim>\<open>types.go\<close>. The code reads \<^verbatim>\<open>Name\<close> of the first and \<^verbatim>\<open>ID\<close> of
  the second; the spec describes a decoded activation token as a named claim whose payload
  is an \<^verbatim>\<open>Activation\<close>, and generic claims as claims with at least an \<^verbatim>\<open>ID\<close>.
\<close>

record ActivationClaims =
  ActivationClaims_Name :: string
  ActivationClaims_Activation :: Activation

record GenericClaims =
  GenericClaims_ID :: string

subsection \<open>Errors and collaborator calls\<close>

text \<open>
  A Go \<^verbatim>\<open>error\<close> built by \<^verbatim>\<open>fmt.Errorf\<close> or \<^verbatim>\<open>errors.New\<close> is a constructor named
  after its message, holding the arguments of the format string in order; an error of a
  collaborator that this file does not build is \<open>External\<close> with its message. A \<^verbatim>\<open>nil\<close>
  error is \<open>None\<close>.
\<close>

datatype error =
    ImportTypeInvalid ImportExportType
      \<comment> \<open>\<^verbatim>\<open>import type %q is invalid\<close>\<close>
  | ActivationDecodeError nat error
      \<comment> \<open>\<^verbatim>\<open>error decoding activation [%d]: %v\<close>\<close>
  | ImportAccountUnresolved string
      \<comment> \<open>\<^verbatim>\<open>import references account %q - but it is not an account pk nor an activation token name\<close>\<close>
  | ExportTypeInvalid ImportExportType
      \<comment> \<open>\<^verbatim>\<open>export type %q is invalid\<close>\<close>
  | ExportSubjectEmpty
      \<comment> \<open>\<^verbatim>\<open>export subject is empty\<close>\<close>
  | ActivationExportError nat error
      \<comment> \<open>\<^verbatim>\<open>error validating activation (index %d):%v\<close>\<close>
  | RevocationNoJWT
      \<comment> \<open>\<^verbatim>\<open>error validating revocation token, no JWT to revoke\<close>\<close>
  | RevocationNoRevokedId
      \<comment> \<open>\<^verbatim>\<open>error validating revocation token, no revoked id specified\<close>\<close>
  | RevocationIdMismatch
      \<comment> \<open>\<^verbatim>\<open>error validating revocation token, id in the child JWT doesn't match revoked id\<close>\<close>
  | External string

text \<open>
  The three functions that \<^verbatim>\<open>types.go\<close> calls and does not define are parameters of the
  methods that call them: \<^verbatim>\<open>DecodeActivationClaims\<close> and \<^verbatim>\<open>DecodeGeneric\<close> return either
  claims or an error, \<^verbatim>\<open>nkeys.IsValidPublicAccountKey\<close> is a predicate. A method that calls
  them also returns the calls it made, in order, so that what is decoded or checked, and
  what is not, can be stated.
\<close>

datatype call =
    Call_DecodeActivationClaims string
  | Call_IsValidPublicAccountKey string
  | Call_DecodeGeneric string

type_synonym activation_decoder = "string \<Rightarrow> error + ActivationClaims"
type_synonym generic_decoder = "string \<Rightarrow> error + GenericClaims"
type_synonym key_validator = "string \<Rightarrow> bool"

section \<open>The methods\<close>

text \<open>
  Every \<^verbatim>\<open>Valid\<close> method and \<^verbatim>\<open>Activations\<close> has a pointer receiver. The model of such a
  method takes the value the receiver points to (the pointer is not \<^verbatim>\<open>nil\<close>) and returns
  its result together with the value of the receiver after the call. A collaborator is a
  function of its argument: the same token decodes to the same result every time.
\<close>

subsection \<open>Import\<close>

definition Import_Valid :: "Import \<Rightarrow> error option \<times> Import" where
  "Import_Valid a =
     (if Import_Type a \<noteq> ImportExportTypeService \<and> Import_Type a \<noteq> ImportExportTypeStream
      then (Some (ImportTypeInvalid (Import_Type a)), a)
      else (None, a))"

subsection \<open>Account\<close>

definition Account_AppendActivation :: "Account \<Rightarrow> string \<Rightarrow> Account" where
  "Account_AppendActivation a act = a\<lparr>Account_Act := Account_Act a @ [act]\<rparr>"

text \<open>
  The loop of \<^verbatim>\<open>Activations\<close>: \<open>i\<close> is the index, \<open>buf\<close> the slice built so far and
  \<open>cs\<close> the calls made so far.
\<close>

fun Activations_loop ::
  "activation_decoder \<Rightarrow> nat \<Rightarrow> string list \<Rightarrow> ActivationClaims list \<Rightarrow> call list
    \<Rightarrow> (error + ActivationClaims list) \<times> call list" where
  "Activations_loop DecodeActivationClaims i [] buf cs = (Inr buf, cs)"
| "Activations_loop DecodeActivationClaims i (s # ss) buf cs =
     (case DecodeActivationClaims s of
        Inl err \<Rightarrow>
          (Inl (ActivationDecodeError i err), cs @ [Call_DecodeActivationClaims s])
      | Inr ac \<Rightarrow>
          Activations_loop DecodeActivationClaims (Suc i) ss (buf @ [ac])
            (cs @ [Call_DecodeActivationClaims s]))"

definition Account_Activations ::
  "activation_decoder \<Rightarrow> Account
    \<Rightarrow> (error + ActivationClaims list) \<times> Account \<times> call list" where
  "Account_Activations DecodeActivationClaims a =
     (case Activations_loop DecodeActivationClaims 0 (Account_Act a) [] [] of
        (r, cs) \<Rightarrow> (r, a, cs))"

text \<open>
  \<^verbatim>\<open>tokenMap\<close> is a Go \<^verbatim>\<open>map[string]bool\<close>: reading a key that was never written gives
  \<^verbatim>\<open>false\<close>.
\<close>

definition map_index :: "(string \<rightharpoonup> bool) \<Rightarrow> string \<Rightarrow> bool" where
  "map_index m k = (case m k of None \<Rightarrow> False | Some b \<Rightarrow> b)"

fun tokenMap_loop :: "ActivationClaims list \<Rightarrow> (string \<rightharpoonup> bool) \<Rightarrow> (string \<rightharpoonup> bool)" where
  "tokenMap_loop [] tokenMap = tokenMap"
| "tokenMap_loop (t # ts) tokenMap =
     tokenMap_loop ts (tokenMap(ActivationClaims_Name t \<mapsto> True))"

fun Imports_loop ::
  "key_validator \<Rightarrow> (string \<rightharpoonup> bool) \<Rightarrow> Import list \<Rightarrow> call list
    \<Rightarrow> error option \<times> call list" where
  "Imports_loop IsValidPublicAccountKey tokenMap [] cs = (None, cs)"
| "Imports_loop IsValidPublicAccountKey tokenMap (t # ts) cs =
     (if \<not> IsValidPublicAccountKey (Import_Account t) \<and> \<not> map_index tokenMap (Import_Account t)
      then (Some (ImportAccountUnresolved (Import_Account t)),
            cs @ [Call_IsValidPublicAccountKey (Import_Account t)])
      else Imports_loop IsValidPublicAccountKey tokenMap ts
             (cs @ [Call_IsValidPublicAccountKey (Import_Account t)]))"

definition Account_Valid ::
  "activation_decoder \<Rightarrow> key_validator \<Rightarrow> Account \<Rightarrow> error option \<times> Account \<times> call list" where
  "Account_Valid DecodeActivationClaims IsValidPublicAccountKey a =
     (case Account_Activations DecodeActivationClaims a of
        (Inl err, a', cs) \<Rightarrow> (Some err, a', cs)
      | (Inr activations, a', cs) \<Rightarrow>
          (case Imports_loop IsValidPublicAccountKey (tokenMap_loop activations Map.empty)
                  (Account_Imports a') cs of
             (r, cs') \<Rightarrow> (r, a', cs')))"

subsection \<open>StringList\<close>

text \<open>
  \<^verbatim>\<open>Add\<close> and \<^verbatim>\<open>Remove\<close> assign to their receiver: the model returns the list the receiver
  holds after the call. In \<^verbatim>\<open>Remove\<close>, \<^verbatim>\<open>append(a[:i], a[i+1:]...)\<close> moves the elements
  after index \<open>i\<close> one place down within the same array and yields the slice of the
  elements before and after \<open>i\<close>; the inner loop stops there.
\<close>

fun StringList_contains :: "StringList \<Rightarrow> string \<Rightarrow> bool" where
  "StringList_contains [] p = False"
| "StringList_contains (t # ts) p = (if t = p then True else StringList_contains ts p)"

fun StringList_Add :: "StringList \<Rightarrow> string list \<Rightarrow> StringList" where
  "StringList_Add u [] = u"
| "StringList_Add u (v # vs) =
     StringList_Add (if \<not> StringList_contains u v \<and> v \<noteq> '''' then u @ [v] else u) vs"

fun Remove_scan :: "StringList \<Rightarrow> string \<Rightarrow> nat \<Rightarrow> string list \<Rightarrow> StringList" where
  "Remove_scan u v i [] = u"
| "Remove_scan u v i (t # ts) =
     (if t = v then take i u @ drop (Suc i) u else Remove_scan u v (Suc i) ts)"

fun StringList_Remove :: "StringList \<Rightarrow> string list \<Rightarrow> StringList" where
  "StringList_Remove u [] = u"
| "StringList_Remove u (v # vs) = StringList_Remove (Remove_scan u v 0 u) vs"

subsection \<open>Permissions, Export, Activation\<close>

definition Permissions_Valid :: "Permissions \<Rightarrow> error option \<times> Permissions" where
  "Permissions_Valid u = (None, u)"

definition Export_Valid :: "Export \<Rightarrow> error option \<times> Export" where
  "Export_Valid e =
     (if Export_Type e \<noteq> ImportExportTypeService \<and> Export_Type e \<noteq> ImportExportTypeStream
      then (Some (ExportTypeInvalid (Export_Type e)), e)
      else if Export_Subject e = '''' then (Some ExportSubjectEmpty, e)
      else (None, e))"

text \<open>
  The loop of \<^verbatim>\<open>Activation.Valid\<close> calls \<^verbatim>\<open>Valid\<close> on the loop variable \<^verbatim>\<open>t\<close>, a copy of
  the element, so the receiver of that call is dropped when the iteration ends.
\<close>

fun Exports_loop :: "nat \<Rightarrow> Export list \<Rightarrow> error option" where
  "Exports_loop i [] = None"
| "Exports_loop i (t # ts) =
     (case fst (Export_Valid t) of
        Some err \<Rightarrow> Some (ActivationExportError i err)
      | None \<Rightarrow> Exports_loop (Suc i) ts)"

definition Activation_Valid :: "Activation \<Rightarrow> error option \<times> Activation" where
  "Activation_Valid a = (Exports_loop 0 (Activation_Exports a), a)"

subsection \<open>Operator, Server, User\<close>

text \<open>
  \<^verbatim>\<open>Server\<close> and \<^verbatim>\<open>User\<close> embed \<^verbatim>\<open>Permissions\<close> and declare no \<^verbatim>\<open>Valid\<close> of their own:
  their \<^verbatim>\<open>Valid\<close> is the promoted method, called on the embedded field.
\<close>

definition Operator_Valid :: "Operator \<Rightarrow> error option \<times> Operator" where
  "Operator_Valid u = (None, u)"

definition Server_Valid :: "Server \<Rightarrow> error option \<times> Server" where
  "Server_Valid s =
     (case Permissions_Valid (Server_Permissions s) of
        (r, p) \<Rightarrow> (r, s\<lparr>Server_Permissions := p\<rparr>))"

definition User_Valid :: "User \<Rightarrow> error option \<times> User" where
  "User_Valid u =
     (case Permissions_Valid (User_Permissions u) of
        (r, p) \<Rightarrow> (r, u\<lparr>User_Permissions := p\<rparr>))"

subsection \<open>Revocation\<close>

definition Revocation_Valid ::
  "generic_decoder \<Rightarrow> Revocation \<Rightarrow> error option \<times> Revocation \<times> call list" where
  "Revocation_Valid DecodeGeneric u =
     (if Revocation_JWT u = '''' then (Some RevocationNoJWT, u, [])
      else if Revocation_Revoked u = '''' then (Some RevocationNoRevokedId, u, [])
      else
        (case DecodeGeneric (Revocation_JWT u) of
           Inl err \<Rightarrow> (Some err, u, [Call_DecodeGeneric (Revocation_JWT u)])
         | Inr theJWT \<Rightarrow>
             if GenericClaims_ID theJWT \<noteq> Revocation_Revoked u
             then (Some RevocationIdMismatch, u, [Call_DecodeGeneric (Revocation_JWT u)])
             else (None, u, [Call_DecodeGeneric (Revocation_JWT u)])))"

section \<open>Example inputs\<close>

text \<open>
  Concrete collaborators and values, used where a statement is evaluated on an input: a
  decoder that accepts the single token \<^verbatim>\<open>tokX\<close> and yields a claim named \<^verbatim>\<open>X\<close> whose
  one export has the unknown type \<^verbatim>\<open>bogus\<close>; a key check that accepts the single key
  \<^verbatim>\<open>AKEY\<close>; a generic decoder that accepts the single token \<^verbatim>\<open>tokABC\<close> and yields
  claims with the id \<^verbatim>\<open>abc\<close>.
\<close>

definition zero_Limits :: Limits where
  "zero_Limits = \<lparr>Limits_Max = 0, Limits_Payload = 0, Limits_Src = '''', Limits_Times = []\<rparr>"

definition zero_OperatorLimits :: OperatorLimits where
  "zero_OperatorLimits =
     \<lparr>OperatorLimits_Subs = 0, OperatorLimits_Conn = 0, OperatorLimits_Maps = 0\<rparr>"

definition example_Activation :: "Export list \<Rightarrow> Activation" where
  "example_Activation es =
     \<lparr>Activation_Exports = es, Activation_Limits = zero_Limits,
      Activation_OperatorLimits = zero_OperatorLimits\<rparr>"

definition example_Import :: "string \<Rightarrow> Import" where
  "example_Import acc =
     \<lparr>Import_Type = ''stream'', Import_Account = acc, Import_Subject = ''foo'',
      Import_To = '''', Import_Prefix = ''''\<rparr>"

definition example_DecodeActivationClaims :: activation_decoder where
  "example_DecodeActivationClaims s =
     (if s = ''tokX''
      then Inr \<lparr>ActivationClaims_Name = ''X'',
                ActivationClaims_Activation =
                  example_Activation [\<lparr>Export_Type = ''bogus'', Export_Subject = ''bar''\<rparr>]\<rparr>
      else Inl (External ''malformed token''))"

definition example_IsValidPublicAccountKey :: key_validator where
  "example_IsValidPublicAccountKey k = (k = ''AKEY'')"

definition example_DecodeGeneric :: generic_decoder where
  "example_DecodeGeneric s =
     (if s = ''tokABC'' then Inr \<lparr>GenericClaims_ID = ''abc''\<rparr>
      else Inl (External ''malformed token''))"

section \<open>Helper lemmas\<close>

subsection \<open>StringList\<close>

lemma contains_set: "StringList_contains u p \<longleftrightarrow> p \<in> set u"
  by (induction u) auto

lemma Remove_scan_remove1:
  "v \<notin> set pre \<Longrightarrow> Remove_scan (pre @ ts) v (length pre) ts = pre @ remove1 v ts"
proof (induction ts arbitrary: pre)
  case Nil
  then show ?case by simp
next
  case (Cons t ts)
  show ?case
  proof (cases "t = v")
    case True
    then show ?thesis by simp
  next
    case False
    with Cons.prems have "v \<notin> set (pre @ [t])" by simp
    from Cons.IH [OF this] False show ?thesis by simp
  qed
qed

lemma Remove_single: "StringList_Remove u [v] = remove1 v u"
  using Remove_scan_remove1 [of v "[]" u] by simp

lemma count_list_pos: "0 < count_list l v \<longleftrightarrow> v \<in> set l"
  using count_list_0_iff [of l v] by auto

lemma in_remove1_count: "v \<in> set (remove1 v l) \<longleftrightarrow> 2 \<le> count_list l v"
  by (induction l) (auto simp: count_list_pos Suc_le_eq)

lemma remdups_snoc: "remdups (xs @ [v]) = remdups (filter (\<lambda>x. x \<noteq> v) xs) @ [v]"
  by (induction xs) auto

lemma first_new_Cons:
  assumes "v \<noteq> ''''" "v \<notin> set u"
  shows "rev (remdups (rev (filter (\<lambda>x. x \<noteq> '''' \<and> x \<notin> set u) (v # vs)))) =
         v # rev (remdups (rev (filter (\<lambda>x. x \<noteq> '''' \<and> x \<notin> set (u @ [v])) vs)))"
proof -
  have f: "filter (\<lambda>x. x \<noteq> v) (rev (filter (\<lambda>x. x \<noteq> '''' \<and> x \<notin> set u) vs)) =
           rev (filter (\<lambda>x. x \<noteq> '''' \<and> x \<notin> set (u @ [v])) vs)"
    by (simp add: rev_filter [symmetric] conj_commute conj_left_commute cong: filter_cong)
  show ?thesis using assms by (simp add: remdups_snoc f del: set_append)
qed

lemma Add_closed_form:
  "StringList_Add u p = u @ rev (remdups (rev (filter (\<lambda>x. x \<noteq> '''' \<and> x \<notin> set u) p)))"
proof (induction p arbitrary: u)
  case Nil
  then show ?case by simp
next
  case (Cons v vs)
  show ?case
  proof (cases "v \<noteq> '''' \<and> v \<notin> set u")
    case True
    then have "StringList_Add u (v # vs) = StringList_Add (u @ [v]) vs"
      by (simp add: contains_set)
    also have "\<dots> = (u @ [v]) @
        rev (remdups (rev (filter (\<lambda>x. x \<noteq> '''' \<and> x \<notin> set (u @ [v])) vs)))"
      by (rule Cons.IH)
    also have "\<dots> = u @ rev (remdups (rev (filter (\<lambda>x. x \<noteq> '''' \<and> x \<notin> set u) (v # vs))))"
      using True first_new_Cons [of v u vs] by simp
    finally show ?thesis .
  next
    case False
    then have "StringList_Add u (v # vs) = StringList_Add u vs"
      by (auto simp: contains_set)
    also have "\<dots> = u @ rev (remdups (rev (filter (\<lambda>x. x \<noteq> '''' \<and> x \<notin> set u) vs)))"
      by (rule Cons.IH)
    also have "\<dots> = u @ rev (remdups (rev (filter (\<lambda>x. x \<noteq> '''' \<and> x \<notin> set u) (v # vs))))"
      using False by auto
    finally show ?thesis .
  qed
qed

subsection \<open>The loops of Activation and Account\<close>

lemma Exports_loop_first_failure:
  "\<forall>x\<in>set pre. fst (Export_Valid x) = None \<Longrightarrow> fst (Export_Valid e) = Some err \<Longrightarrow>
   Exports_loop i (pre @ e # rest) = Some (ActivationExportError (i + length pre) err)"
  by (induction pre arbitrary: i) auto

lemma Activations_loop_all:
  "\<forall>s\<in>set ss. \<exists>ac. dec s = Inr ac \<Longrightarrow>
   Activations_loop dec i ss buf cs =
     (Inr (buf @ map (projr \<circ> dec) ss), cs @ map Call_DecodeActivationClaims ss)"
  by (induction ss arbitrary: i buf cs) auto

lemma Activations_loop_first_failure:
  "\<forall>x\<in>set pre. \<exists>ac. dec x = Inr ac \<Longrightarrow> dec s = Inl err \<Longrightarrow>
   Activations_loop dec i (pre @ s # rest) buf cs =
     (Inl (ActivationDecodeError (i + length pre) err),
      cs @ map Call_DecodeActivationClaims (pre @ [s]))"
  by (induction pre arbitrary: i buf cs) auto

lemma tokenMap_loop_eq:
  "tokenMap_loop ts m = (\<lambda>k. if k \<in> ActivationClaims_Name ` set ts then Some True else m k)"
  by (induction ts arbitrary: m) (auto simp: fun_eq_iff)

lemma map_index_tokenMap_loop:
  "map_index (tokenMap_loop ts Map.empty) k \<longleftrightarrow> k \<in> ActivationClaims_Name ` set ts"
  by (simp add: tokenMap_loop_eq map_index_def)

lemma decoded_names:
  assumes "\<forall>s\<in>set ss. \<exists>ac. dec s = Inr ac"
  shows "k \<in> ActivationClaims_Name ` set (map (projr \<circ> dec) ss) \<longleftrightarrow>
         (\<exists>s\<in>set ss. \<exists>ac. dec s = Inr ac \<and> ActivationClaims_Name ac = k)"
  using assms by force

lemma Imports_loop_first_failure:
  "\<forall>x\<in>set pre. isv (Import_Account x) \<or> map_index tm (Import_Account x) \<Longrightarrow>
   \<not> isv (Import_Account t) \<Longrightarrow> \<not> map_index tm (Import_Account t) \<Longrightarrow>
   Imports_loop isv tm (pre @ t # rest) cs =
     (Some (ImportAccountUnresolved (Import_Account t)),
      cs @ map (Call_IsValidPublicAccountKey \<circ> Import_Account) (pre @ [t]))"
  by (induction pre arbitrary: cs) auto

lemma Imports_loop_None_iff:
  "fst (Imports_loop isv tm ts cs) = None \<longleftrightarrow>
   (\<forall>t\<in>set ts. isv (Import_Account t) \<or> map_index tm (Import_Account t))"
  by (induction ts arbitrary: cs) auto

lemma Account_Valid_all_decoded:
  assumes "\<forall>s\<in>set (Account_Act a). \<exists>ac. dec s = Inr ac"
  shows "Account_Valid dec isv a =
    (case Imports_loop isv (tokenMap_loop (map (projr \<circ> dec) (Account_Act a)) Map.empty)
            (Account_Imports a) (map Call_DecodeActivationClaims (Account_Act a)) of
       (r, cs) \<Rightarrow> (r, a, cs))"
  by (simp add: Account_Valid_def Account_Activations_def Activations_loop_all [OF assms])

lemma tokenMap_decoded:
  assumes "\<forall>s\<in>set ss. \<exists>ac. dec s = Inr ac"
  shows "map_index (tokenMap_loop (map (projr \<circ> dec) ss) Map.empty) k \<longleftrightarrow>
         (\<exists>s\<in>set ss. \<exists>ac. dec s = Inr ac \<and> ActivationClaims_Name ac = k)"
  unfolding map_index_tokenMap_loop decoded_names [OF assms] ..

lemma Account_Valid_resolved:
  assumes dec: "\<forall>s\<in>set (Account_Act a). \<exists>ac. dec s = Inr ac"
  shows "fst (Account_Valid dec isv a) = None \<longleftrightarrow>
    (\<forall>t\<in>set (Account_Imports a). isv (Import_Account t) \<or>
       (\<exists>s\<in>set (Account_Act a). \<exists>ac. dec s = Inr ac \<and>
          ActivationClaims_Name ac = Import_Account t))"
  by (simp add: Account_Valid_all_decoded [OF dec] split_beta Imports_loop_None_iff
        tokenMap_decoded [OF dec])

text \<open>
  Two decoders that fail on the same tokens with the same errors and give claims of the
  same names elsewhere make \<^verbatim>\<open>Activations\<close> and \<^verbatim>\<open>Valid\<close> behave alike.
\<close>

lemma tokenMap_loop_names:
  assumes "map ActivationClaims_Name ts' = map ActivationClaims_Name ts"
  shows "tokenMap_loop ts' m = tokenMap_loop ts m"
proof -
  have "ActivationClaims_Name ` set ts' = ActivationClaims_Name ` set ts"
    using assms by (metis set_map)
  then show ?thesis by (simp add: tokenMap_loop_eq)
qed

lemma Activations_loop_names:
  assumes "\<forall>s\<in>set ss. map_sum id ActivationClaims_Name (dec' s) =
                        map_sum id ActivationClaims_Name (dec s)"
    and "map ActivationClaims_Name buf' = map ActivationClaims_Name buf"
  shows "map_prod (map_sum id (map ActivationClaims_Name)) id
           (Activations_loop dec' i ss buf' cs) =
         map_prod (map_sum id (map ActivationClaims_Name)) id
           (Activations_loop dec i ss buf cs)"
  using assms
proof (induction ss arbitrary: i buf buf' cs)
  case Nil
  then show ?case by simp
next
  case (Cons s ss)
  from Cons.prems(1)
  have here: "map_sum id ActivationClaims_Name (dec' s) = map_sum id ActivationClaims_Name (dec s)"
    by (rule bspec) simp
  from Cons.prems(1)
  have rest: "\<forall>s\<in>set ss. map_sum id ActivationClaims_Name (dec' s) =
                           map_sum id ActivationClaims_Name (dec s)"
    by (blast intro: list.set_intros)
  show ?case
  proof (cases "dec s")
    case (Inl err)
    with here have "dec' s = Inl err" by (cases "dec' s") simp_all
    with Inl show ?thesis by simp
  next
    case (Inr ac)
    with here obtain ac' where ac': "dec' s = Inr ac'"
      and n: "ActivationClaims_Name ac' = ActivationClaims_Name ac"
      by (cases "dec' s") simp_all
    from Cons.prems(2) n
    have "map ActivationClaims_Name (buf' @ [ac']) = map ActivationClaims_Name (buf @ [ac])"
      by simp
    from Cons.IH [OF rest this] Inr ac' show ?thesis by simp
  qed
qed

lemma Account_Valid_names:
  assumes "\<forall>s\<in>set (Account_Act a). map_sum id ActivationClaims_Name (dec' s) =
                                     map_sum id ActivationClaims_Name (dec s)"
  shows "Account_Valid dec' isv a = Account_Valid dec isv a"
proof -
  obtain r cs where l: "Activations_loop dec 0 (Account_Act a) [] [] = (r, cs)"
    by (cases "Activations_loop dec 0 (Account_Act a) [] []")
  obtain r' cs' where l': "Activations_loop dec' 0 (Account_Act a) [] [] = (r', cs')"
    by (cases "Activations_loop dec' 0 (Account_Act a) [] []")
  from Activations_loop_names [OF assms, of "[]" "[]" 0 "[]"] l l'
  have cs: "cs' = cs"
    and r: "map_sum id (map ActivationClaims_Name) r' = map_sum id (map ActivationClaims_Name) r"
    by simp_all
  show ?thesis
  proof (cases r)
    case (Inl err)
    with r have "r' = Inl err" by (cases r') simp_all
    with Inl l l' cs show ?thesis
      by (simp add: Account_Valid_def Account_Activations_def)
  next
    case (Inr acts)
    with r obtain acts' where r': "r' = Inr acts'"
      and n: "map ActivationClaims_Name acts' = map ActivationClaims_Name acts"
      by (cases r') simp_all
    from tokenMap_loop_names [OF n] Inr r' l l' cs show ?thesis
      by (simp add: Account_Valid_def Account_Activations_def)
  qed
qed

section \<open>Import and Export validity\<close>

text \<open>
  C3. \<^verbatim>\<open>Export.Valid\<close> returns \<^verbatim>\<open>nil\<close> exactly when the type is \<^verbatim>\<open>stream\<close> or \<^verbatim>\<open>service\<close>
  and the subject is not empty; with an invalid type it returns the invalid-type error
  whatever the subject is, so an export with an invalid type and an empty subject gets the
  invalid-type error and not the empty-subject one.
\<close>

theorem Export_Valid_iff:
  "(fst (Export_Valid e) = None \<longleftrightarrow>
      (Export_Type e = ''stream'' \<or> Export_Type e = ''service'') \<and> Export_Subject e \<noteq> '''') \<and>
   (Export_Type e \<noteq> ''stream'' \<and> Export_Type e \<noteq> ''service'' \<longrightarrow>
      fst (Export_Valid e) = Some (ExportTypeInvalid (Export_Type e)) \<and>
      fst (Export_Valid e) \<noteq> Some ExportSubjectEmpty)"
  by (auto simp: Export_Valid_def ImportExportTypeStream_def ImportExportTypeService_def)

theorem Export_Valid_iff_witness:
  "fst (Export_Valid \<lparr>Export_Type = ''bogus'', Export_Subject = ''''\<rparr>)
     = Some (ExportTypeInvalid ''bogus'') \<and>
   fst (Export_Valid \<lparr>Export_Type = ''bogus'', Export_Subject = ''''\<rparr>) \<noteq> Some ExportSubjectEmpty \<and>
   fst (Export_Valid \<lparr>Export_Type = ''bogus'', Export_Subject = ''''\<rparr>) \<noteq> None"
  using Export_Valid_iff [of "\<lparr>Export_Type = ''bogus'', Export_Subject = ''''\<rparr>"]
  by simp

text \<open>
  C6. \<^verbatim>\<open>Import.Valid\<close> returns \<^verbatim>\<open>nil\<close> exactly when the type is \<^verbatim>\<open>stream\<close> or \<^verbatim>\<open>service\<close>;
  replacing the account, subject, to and prefix fields by any other values does not change
  what it returns.
\<close>

theorem Import_Valid_iff:
  "(fst (Import_Valid i) = None \<longleftrightarrow> Import_Type i = ''stream'' \<or> Import_Type i = ''service'') \<and>
   fst (Import_Valid (i\<lparr>Import_Account := acc, Import_Subject := sub, Import_To := to,
                        Import_Prefix := pre\<rparr>)) = fst (Import_Valid i)"
  by (auto simp: Import_Valid_def ImportExportTypeStream_def ImportExportTypeService_def)

section \<open>Activation validity\<close>

text \<open>
  C4. \<^verbatim>\<open>Activation.Valid\<close> checks the exports in order: when the exports before some
  export are all valid and that export is not, the result is the error holding the
  zero-based index of that export and the error of its \<^verbatim>\<open>Valid\<close>, whatever exports follow
  it; an activation with no exports is valid.
\<close>

theorem Activation_Valid_first_failure:
  "(Activation_Exports a = pre @ e # rest \<and> (\<forall>x\<in>set pre. fst (Export_Valid x) = None) \<and>
    fst (Export_Valid e) = Some err \<longrightarrow>
      fst (Activation_Valid a) = Some (ActivationExportError (length pre) err) \<and>
      fst (Activation_Valid (a\<lparr>Activation_Exports := pre @ e # rest'\<rparr>)) =
        fst (Activation_Valid a)) \<and>
   (Activation_Exports a = [] \<longrightarrow> fst (Activation_Valid a) = None)"
  using Exports_loop_first_failure [of pre e err 0]
  by (simp add: Activation_Valid_def)

theorem Activation_Valid_first_failure_witness:
  "fst (Activation_Valid
         (example_Activation
           [\<lparr>Export_Type = ''service'', Export_Subject = ''foo''\<rparr>,
            \<lparr>Export_Type = ''bogus'', Export_Subject = ''bar''\<rparr>,
            \<lparr>Export_Type = ''stream'', Export_Subject = ''''\<rparr>])) =
     Some (ActivationExportError 1 (ExportTypeInvalid ''bogus'')) \<and>
   fst (Activation_Valid (example_Activation [])) = None"
  using
    Activation_Valid_first_failure
      [where a = "example_Activation
           [\<lparr>Export_Type = ''service'', Export_Subject = ''foo''\<rparr>,
            \<lparr>Export_Type = ''bogus'', Export_Subject = ''bar''\<rparr>,
            \<lparr>Export_Type = ''stream'', Export_Subject = ''''\<rparr>]"
       and pre = "[\<lparr>Export_Type = ''service'', Export_Subject = ''foo''\<rparr>]"
       and e = "\<lparr>Export_Type = ''bogus'', Export_Subject = ''bar''\<rparr>"
       and rest = "[\<lparr>Export_Type = ''stream'', Export_Subject = ''''\<rparr>]"
       and err = "ExportTypeInvalid ''bogus''"]
    Activation_Valid_first_failure [where a = "example_Activation []"]
  by (simp add: example_Activation_def Export_Valid_def ImportExportTypeStream_def
        ImportExportTypeService_def)

section \<open>Account validity\<close>

text \<open>
  C5. \<^verbatim>\<open>Account.Valid\<close> decodes the entries of \<^verbatim>\<open>Act\<close> in order: when the entries before
  some entry all decode and that entry does not, \<^verbatim>\<open>Activations\<close> and \<^verbatim>\<open>Valid\<close> return the
  error holding the index of that entry and the decoder's error; the decoder has been
  called on the entries up to that one and on no later entry, and the key check has not
  been called for any import.
\<close>

theorem Account_Valid_decode_failure:
  assumes "Account_Act a = pre @ s # rest"
    and "\<forall>x\<in>set pre. \<exists>ac. dec x = Inr ac"
    and "dec s = Inl err"
  shows "Account_Activations dec a =
           (Inl (ActivationDecodeError (length pre) err), a,
            map Call_DecodeActivationClaims (pre @ [s])) \<and>
         Account_Valid dec isv a =
           (Some (ActivationDecodeError (length pre) err), a,
            map Call_DecodeActivationClaims (pre @ [s]))"
  using assms(1) Activations_loop_first_failure [OF assms(2,3), of 0 rest "[]" "[]"]
  by (simp add: Account_Valid_def Account_Activations_def)

theorem Account_Valid_decode_failure_witness:
  "Account_Valid example_DecodeActivationClaims example_IsValidPublicAccountKey
     \<lparr>Account_Imports = [example_Import ''nobody''],
      Account_Act = [''tokX'', ''garbage'', ''tokX'']\<rparr> =
   (Some (ActivationDecodeError 1 (External ''malformed token'')),
    \<lparr>Account_Imports = [example_Import ''nobody''],
     Account_Act = [''tokX'', ''garbage'', ''tokX'']\<rparr>,
    [Call_DecodeActivationClaims ''tokX'', Call_DecodeActivationClaims ''garbage''])"
proof -
  have pre: "\<forall>x\<in>set [''tokX'']. \<exists>ac. example_DecodeActivationClaims x = Inr ac"
    by (simp add: example_DecodeActivationClaims_def)
  have s: "example_DecodeActivationClaims ''garbage'' = Inl (External ''malformed token'')"
    by (simp add: example_DecodeActivationClaims_def)
  have act: "Account_Act \<lparr>Account_Imports = [example_Import ''nobody''],
      Account_Act = [''tokX'', ''garbage'', ''tokX'']\<rparr> = [''tokX''] @ ''garbage'' # [''tokX'']"
    by simp
  from Account_Valid_decode_failure [OF act pre s, of example_IsValidPublicAccountKey]
  show ?thesis by simp
qed

text \<open>
  C1. When every entry of \<^verbatim>\<open>Act\<close> decodes, \<^verbatim>\<open>Account.Valid\<close> returns \<^verbatim>\<open>nil\<close> exactly when
  the account field of every import is accepted by the key check or is the name of one of
  the decoded activations. When the imports before some import all pass and that import
  does not, \<^verbatim>\<open>Valid\<close> returns the unresolved-import error naming its account field, and the
  key check has been called for the imports up to that one and for no later import.
\<close>

theorem Account_Valid_imports:
  fixes dec :: activation_decoder and isv :: key_validator and a :: Account
  defines "resolves \<equiv> \<lambda>t. isv (Import_Account t) \<or>
     (\<exists>s\<in>set (Account_Act a). \<exists>ac. dec s = Inr ac \<and>
        ActivationClaims_Name ac = Import_Account t)"
  assumes dec: "\<forall>s\<in>set (Account_Act a). \<exists>ac. dec s = Inr ac"
  shows "(fst (Account_Valid dec isv a) = None \<longleftrightarrow>
            (\<forall>t\<in>set (Account_Imports a). resolves t)) \<and>
         (Account_Imports a = pre @ t # rest \<and> (\<forall>x\<in>set pre. resolves x) \<and> \<not> resolves t \<longrightarrow>
            Account_Valid dec isv a =
              (Some (ImportAccountUnresolved (Import_Account t)), a,
               map Call_DecodeActivationClaims (Account_Act a) @
               map (Call_IsValidPublicAccountKey \<circ> Import_Account) (pre @ [t])))"
proof -
  let ?tm = "tokenMap_loop (map (projr \<circ> dec) (Account_Act a)) Map.empty"
  have res: "resolves x \<longleftrightarrow> isv (Import_Account x) \<or> map_index ?tm (Import_Account x)" for x
    unfolding resolves_def tokenMap_decoded [OF dec] ..
  have "fst (Account_Valid dec isv a) = None \<longleftrightarrow> (\<forall>t\<in>set (Account_Imports a). resolves t)"
    by (simp add: Account_Valid_all_decoded [OF dec] split_beta Imports_loop_None_iff res)
  moreover have "Account_Valid dec isv a =
              (Some (ImportAccountUnresolved (Import_Account t)), a,
               map Call_DecodeActivationClaims (Account_Act a) @
               map (Call_IsValidPublicAccountKey \<circ> Import_Account) (pre @ [t]))"
    if imps: "Account_Imports a = pre @ t # rest"
      and before: "\<forall>x\<in>set pre. resolves x" and here: "\<not> resolves t"
  proof -
    from before
    have "\<forall>x\<in>set pre. isv (Import_Account x) \<or> map_index ?tm (Import_Account x)"
      by (simp add: res)
    moreover from here
    have "\<not> isv (Import_Account t)" "\<not> map_index ?tm (Import_Account t)"
      by (simp_all add: res)
    ultimately show ?thesis
      using imps
      by (simp add: Account_Valid_all_decoded [OF dec] Imports_loop_first_failure)
  qed
  ultimately show ?thesis by blast
qed

theorem Account_Valid_imports_witness:
  "fst (Account_Valid example_DecodeActivationClaims example_IsValidPublicAccountKey
         \<lparr>Account_Imports = [example_Import ''X''], Account_Act = [''tokX'']\<rparr>) = None \<and>
   Account_Valid example_DecodeActivationClaims example_IsValidPublicAccountKey
     \<lparr>Account_Imports =
        [example_Import ''X'', example_Import ''AKEY'', example_Import ''Y'',
         example_Import ''X''],
      Account_Act = [''tokX'']\<rparr> =
   (Some (ImportAccountUnresolved ''Y''),
    \<lparr>Account_Imports =
       [example_Import ''X'', example_Import ''AKEY'', example_Import ''Y'',
        example_Import ''X''],
     Account_Act = [''tokX'']\<rparr>,
    [Call_DecodeActivationClaims ''tokX'', Call_IsValidPublicAccountKey ''X'',
     Call_IsValidPublicAccountKey ''AKEY'', Call_IsValidPublicAccountKey ''Y''])"
proof -
  let ?a1 = "\<lparr>Account_Imports = [example_Import ''X''], Account_Act = [''tokX'']\<rparr>"
  let ?a2 = "\<lparr>Account_Imports =
        [example_Import ''X'', example_Import ''AKEY'', example_Import ''Y'',
         example_Import ''X''],
      Account_Act = [''tokX'']\<rparr>"
  have d1: "\<forall>s\<in>set (Account_Act ?a1). \<exists>ac. example_DecodeActivationClaims s = Inr ac"
    by (simp add: example_DecodeActivationClaims_def)
  have d2: "\<forall>s\<in>set (Account_Act ?a2). \<exists>ac. example_DecodeActivationClaims s = Inr ac"
    by (simp add: example_DecodeActivationClaims_def)
  from Account_Valid_imports [OF d1, where isv = example_IsValidPublicAccountKey,
      THEN conjunct1]
  have "fst (Account_Valid example_DecodeActivationClaims example_IsValidPublicAccountKey ?a1)
          = None"
    by (simp add: example_DecodeActivationClaims_def [abs_def] example_Import_def)
  moreover
  from Account_Valid_imports [OF d2, where isv = example_IsValidPublicAccountKey
      and pre = "[example_Import ''X'', example_Import ''AKEY'']"
      and t = "example_Import ''Y''" and rest = "[example_Import ''X'']"]
  have "Account_Valid example_DecodeActivationClaims example_IsValidPublicAccountKey ?a2 =
    (Some (ImportAccountUnresolved ''Y''), ?a2,
     [Call_DecodeActivationClaims ''tokX'', Call_IsValidPublicAccountKey ''X'',
      Call_IsValidPublicAccountKey ''AKEY'', Call_IsValidPublicAccountKey ''Y''])"
    by (simp add: example_DecodeActivationClaims_def [abs_def] example_Import_def
          example_IsValidPublicAccountKey_def)
  ultimately show ?thesis by simp
qed

text \<open>
  C9. \<^verbatim>\<open>Account.Valid\<close> does not validate the activations it decodes: when every entry of
  \<^verbatim>\<open>Act\<close> decodes and every import resolves it returns \<^verbatim>\<open>nil\<close>, with no condition on the
  exports of the decoded activations; and it returns the same result, leaves the same
  receiver and makes the same calls under any other decoder that fails on the same entries
  with the same errors and gives claims of the same names, whatever their payloads are.
\<close>

theorem Account_Valid_ignores_payload:
  "((\<forall>s\<in>set (Account_Act a). \<exists>ac. dec s = Inr ac) \<and>
    (\<forall>t\<in>set (Account_Imports a). isv (Import_Account t) \<or>
       (\<exists>s\<in>set (Account_Act a). \<exists>ac. dec s = Inr ac \<and>
          ActivationClaims_Name ac = Import_Account t)) \<longrightarrow>
      fst (Account_Valid dec isv a) = None) \<and>
   ((\<forall>s\<in>set (Account_Act a). map_sum id ActivationClaims_Name (dec' s) =
                               map_sum id ActivationClaims_Name (dec s)) \<longrightarrow>
      Account_Valid dec' isv a = Account_Valid dec isv a)"
  using Account_Valid_resolved [of a dec isv] Account_Valid_names [of a dec' dec isv]
  by blast

theorem Account_Valid_ignores_payload_witness:
  "fst (Activation_Valid
         (ActivationClaims_Activation (projr (example_DecodeActivationClaims ''tokX'')))) =
     Some (ActivationExportError 0 (ExportTypeInvalid ''bogus'')) \<and>
   fst (Account_Valid example_DecodeActivationClaims example_IsValidPublicAccountKey
         \<lparr>Account_Imports = [example_Import ''X''], Account_Act = [''tokX'']\<rparr>) = None \<and>
   Account_Valid
     (\<lambda>s. map_sum id (\<lambda>ac. ac\<lparr>ActivationClaims_Activation := example_Activation []\<rparr>)
            (example_DecodeActivationClaims s))
     example_IsValidPublicAccountKey
     \<lparr>Account_Imports = [example_Import ''X''], Account_Act = [''tokX'']\<rparr> =
   Account_Valid example_DecodeActivationClaims example_IsValidPublicAccountKey
     \<lparr>Account_Imports = [example_Import ''X''], Account_Act = [''tokX'']\<rparr>"
proof -
  have "fst (Activation_Valid
         (ActivationClaims_Activation (projr (example_DecodeActivationClaims ''tokX'')))) =
     Some (ActivationExportError 0 (ExportTypeInvalid ''bogus''))"
    by (simp add: example_DecodeActivationClaims_def example_Activation_def
          Activation_Valid_def Export_Valid_def ImportExportTypeStream_def
          ImportExportTypeService_def)
  then show ?thesis
    using Account_Valid_ignores_payload
      [where a = "\<lparr>Account_Imports = [example_Import ''X''], Account_Act = [''tokX'']\<rparr>"
         and dec = example_DecodeActivationClaims
         and isv = example_IsValidPublicAccountKey
         and dec' = "\<lambda>s. map_sum id
               (\<lambda>ac. ac\<lparr>ActivationClaims_Activation := example_Activation []\<rparr>)
               (example_DecodeActivationClaims s)"]
    by (simp add: example_DecodeActivationClaims_def example_Import_def)
qed

section \<open>Revocation validity\<close>

text \<open>
  C2. \<^verbatim>\<open>Revocation.Valid\<close> checks in this order: an empty \<^verbatim>\<open>JWT\<close> gives the missing-JWT
  error; otherwise an empty \<^verbatim>\<open>Revoked\<close> gives the missing-id error; in both cases the
  decoder has not been called. Otherwise the decoder is called once, on \<^verbatim>\<open>JWT\<close>: its error
  is returned as it is; a decoded id different from \<^verbatim>\<open>Revoked\<close> gives the mismatch error;
  an equal id gives \<^verbatim>\<open>nil\<close>.
\<close>

theorem Revocation_Valid_order:
  "(Revocation_JWT r = '''' \<longrightarrow> Revocation_Valid decg r = (Some RevocationNoJWT, r, [])) \<and>
   (Revocation_JWT r \<noteq> '''' \<and> Revocation_Revoked r = '''' \<longrightarrow>
      Revocation_Valid decg r = (Some RevocationNoRevokedId, r, [])) \<and>
   (Revocation_JWT r \<noteq> '''' \<and> Revocation_Revoked r \<noteq> '''' \<and>
    decg (Revocation_JWT r) = Inl err \<longrightarrow>
      Revocation_Valid decg r = (Some err, r, [Call_DecodeGeneric (Revocation_JWT r)])) \<and>
   (Revocation_JWT r \<noteq> '''' \<and> Revocation_Revoked r \<noteq> '''' \<and>
    decg (Revocation_JWT r) = Inr c \<and> GenericClaims_ID c \<noteq> Revocation_Revoked r \<longrightarrow>
      Revocation_Valid decg r =
        (Some RevocationIdMismatch, r, [Call_DecodeGeneric (Revocation_JWT r)])) \<and>
   (Revocation_JWT r \<noteq> '''' \<and> Revocation_Revoked r \<noteq> '''' \<and>
    decg (Revocation_JWT r) = Inr c \<and> GenericClaims_ID c = Revocation_Revoked r \<longrightarrow>
      Revocation_Valid decg r = (None, r, [Call_DecodeGeneric (Revocation_JWT r)]))"
  by (simp add: Revocation_Valid_def)

theorem Revocation_Valid_order_witness:
  "fst (Revocation_Valid example_DecodeGeneric
         \<lparr>Revocation_Revoked = '''', Revocation_JWT = '''', Revocation_Reason = ''''\<rparr>) =
     Some RevocationNoJWT \<and>
   Revocation_Valid example_DecodeGeneric
     \<lparr>Revocation_Revoked = '''', Revocation_JWT = ''garbage'', Revocation_Reason = ''''\<rparr> =
     (Some RevocationNoRevokedId,
      \<lparr>Revocation_Revoked = '''', Revocation_JWT = ''garbage'', Revocation_Reason = ''''\<rparr>,
      []) \<and>
   fst (Revocation_Valid example_DecodeGeneric
         \<lparr>Revocation_Revoked = ''abc'', Revocation_JWT = ''garbage'',
          Revocation_Reason = ''''\<rparr>) =
     Some (External ''malformed token'') \<and>
   fst (Revocation_Valid example_DecodeGeneric
         \<lparr>Revocation_Revoked = ''xyz'', Revocation_JWT = ''tokABC'',
          Revocation_Reason = ''''\<rparr>) =
     Some RevocationIdMismatch \<and>
   fst (Revocation_Valid example_DecodeGeneric
         \<lparr>Revocation_Revoked = ''abc'', Revocation_JWT = ''tokABC'',
          Revocation_Reason = ''''\<rparr>) =
     None"
  using
    Revocation_Valid_order
      [where r = "\<lparr>Revocation_Revoked = '''', Revocation_JWT = '''', Revocation_Reason = ''''\<rparr>"
         and decg = example_DecodeGeneric]
    Revocation_Valid_order
      [where r = "\<lparr>Revocation_Revoked = '''', Revocation_JWT = ''garbage'',
                   Revocation_Reason = ''''\<rparr>"
         and decg = example_DecodeGeneric]
    Revocation_Valid_order
      [where r = "\<lparr>Revocation_Revoked = ''abc'', Revocation_JWT = ''garbage'',
                   Revocation_Reason = ''''\<rparr>"
         and decg = example_DecodeGeneric and err = "External ''malformed token''"]
    Revocation_Valid_order
      [where r = "\<lparr>Revocation_Revoked = ''xyz'', Revocation_JWT = ''tokABC'',
                   Revocation_Reason = ''''\<rparr>"
         and decg = example_DecodeGeneric and c = "\<lparr>GenericClaims_ID = ''abc''\<rparr>"]
    Revocation_Valid_order
      [where r = "\<lparr>Revocation_Revoked = ''abc'', Revocation_JWT = ''tokABC'',
                   Revocation_Reason = ''''\<rparr>"
         and decg = example_DecodeGeneric and c = "\<lparr>GenericClaims_ID = ''abc''\<rparr>"]
  by (simp add: example_DecodeGeneric_def)

section \<open>StringList\<close>

text \<open>
  C7, as the code has it. \<^verbatim>\<open>Remove(v)\<close> takes out the first occurrence of \<open>v\<close> and
  nothing else. So after \<^verbatim>\<open>l.Remove(v)\<close> the list no longer contains \<open>v\<close> when \<open>v\<close>
  occurred exactly once in \<open>l\<close>, in particular when \<open>v\<close> is present and \<open>l\<close> has no
  duplicates; it still contains \<open>v\<close> when \<open>v\<close> occurred more than once; and removing a
  value that is absent leaves the list unchanged.
\<close>

theorem StringList_Remove_once:
  "StringList_Remove l [v] = remove1 v l \<and>
   (count_list l v = 1 \<longrightarrow> \<not> StringList_contains (StringList_Remove l [v]) v) \<and>
   (StringList_contains l v \<and> distinct l \<longrightarrow>
      \<not> StringList_contains (StringList_Remove l [v]) v) \<and>
   (2 \<le> count_list l v \<longrightarrow> StringList_contains (StringList_Remove l [v]) v) \<and>
   (\<not> StringList_contains l v \<longrightarrow> StringList_Remove l [v] = l)"
  unfolding Remove_single contains_set
  by (simp add: in_remove1_count remove1_idem)

theorem StringList_Remove_once_witness:
  "\<not> StringList_contains (StringList_Remove [''a'', ''b''] [''a'']) ''a'' \<and>
   StringList_Remove [''a'', ''b''] [''a''] = [''b''] \<and>
   StringList_contains (StringList_Remove [''a'', ''b'', ''a''] [''a'']) ''a'' \<and>
   StringList_Remove [''a'', ''b''] [''c''] = [''a'', ''b'']"
  using StringList_Remove_once [of "[''a'', ''b'']" "''a''"]
    StringList_Remove_once [of "[''a'', ''b'', ''a'']" "''a''"]
    StringList_Remove_once [of "[''a'', ''b'']" "''c''"]
  by simp

text \<open>
  The claim as it is written fails on a list that holds the value twice: the second
  occurrence stays.
\<close>

theorem StringList_Remove_counterexample:
  "StringList_contains [''a'', ''a''] ''a'' \<and>
   StringList_contains (StringList_Remove [''a'', ''a''] [''a'']) ''a''"
  by simp

text \<open>
  C8, as the code has it. Adding a value twice gives the same list as adding it once. After
  that the list holds the value as often as before when the value is empty or was already
  present, and once otherwise: exactly once for a non-empty value that the list held at
  most once. \<^verbatim>\<open>Add\<close> keeps the list it starts from and appends, in the order of their
  first occurrence among the arguments and once each, the arguments that are not empty and
  not in the list; it has no error result.
\<close>

theorem StringList_Add_twice:
  "StringList_Add (StringList_Add l [v]) [v] = StringList_Add l [v] \<and>
   count_list (StringList_Add (StringList_Add l [v]) [v]) v =
     (if v = '''' \<or> StringList_contains l v then count_list l v else 1) \<and>
   (v \<noteq> '''' \<and> count_list l v \<le> 1 \<longrightarrow>
      count_list (StringList_Add (StringList_Add l [v]) [v]) v = 1) \<and>
   StringList_Add l p =
     l @ rev (remdups (rev (filter (\<lambda>x. x \<noteq> '''' \<and> \<not> StringList_contains l x) p)))"
proof -
  have "count_list l v = 1" if "v \<in> set l" "count_list l v \<le> 1"
    using that count_list_pos [of l v] by simp
  then show ?thesis
    using Add_closed_form [of l p] by (auto simp: contains_set)
qed

theorem StringList_Add_twice_witness:
  "count_list (StringList_Add (StringList_Add [''b''] [''a'']) [''a'']) ''a'' = 1 \<and>
   StringList_Add [''b''] [''a'', '''', ''b'', ''c'', ''a''] = [''b'', ''a'', ''c'']"
  using StringList_Add_twice [of "[''b'']" "''a''" "[''a'', '''', ''b'', ''c'', ''a'']"]
  by simp

text \<open>
  The claim as it is written fails for the empty string, which \<^verbatim>\<open>Add\<close> never appends: after
  two calls the empty list still holds it zero times.
\<close>

theorem StringList_Add_counterexample:
  "count_list (StringList_Add (StringList_Add [] ['''']) ['''']) '''' = 0"
  by simp

section \<open>Receivers\<close>

text \<open>
  C10. Every \<^verbatim>\<open>Valid\<close> method and \<^verbatim>\<open>Account.Activations\<close> leave their receiver as it was:
  the value of the receiver after the call is its value before the call. The decoded
  activation claims of \<^verbatim>\<open>Account.Valid\<close> are therefore in no field of the account.
\<close>

theorem Valid_receiver_unchanged:
  "snd (Import_Valid i) = i \<and>
   snd (Export_Valid e) = e \<and>
   snd (Activation_Valid act) = act \<and>
   fst (snd (Account_Valid dec isv a)) = a \<and>
   snd (Permissions_Valid p) = p \<and>
   snd (Operator_Valid op) = op \<and>
   snd (Server_Valid s) = s \<and>
   snd (User_Valid u) = u \<and>
   fst (snd (Revocation_Valid decg r)) = r \<and>
   fst (snd (Account_Activations dec a)) = a"
proof -
  have activations: "fst (snd (Account_Activations dec a)) = a"
    by (simp add: Account_Activations_def split_beta)
  have "fst (snd (Account_Valid dec isv a)) = a"
    using activations
    by (cases "Account_Activations dec a")
       (auto simp: Account_Valid_def split: sum.splits prod.splits)
  moreover have "fst (snd (Revocation_Valid decg r)) = r"
    by (simp add: Revocation_Valid_def split: sum.splits)
  moreover have "snd (Import_Valid i) = i" "snd (Export_Valid e) = e"
    "snd (Activation_Valid act) = act" "snd (Permissions_Valid p) = p"
    "snd (Operator_Valid op) = op" "snd (Server_Valid s) = s" "snd (User_Valid u) = u"
    by (simp_all add: Import_Valid_def Export_Valid_def Activation_Valid_def
          Permissions_Valid_def Operator_Valid_def Server_Valid_def User_Valid_def)
  ultimately show ?thesis using activations by simp
qed

end
